theory Spec2Isabelle
  imports Main
begin

section \<open>Time values of the platform's Date\<close>

text \<open>
  A time value is a number of milliseconds since 1970-01-01T00:00:00Z, an integer. A Date
  holds a time value of at most \<open>8.64 * 10^15\<close> ms in absolute value, or \<open>NaN\<close> (an
  invalid Date), which is \<open>None\<close> here. The operations below are the abstract operations
  of ECMA-262 (section "Date Objects") that the getters and setters called by
  \<open>calculateDailyAllowance\<close> are made of.
\<close>

type_synonym time_value = int

type_synonym Date = "time_value option"

definition maxTime :: time_value where
  "maxTime = 8640000000000000"

definition validTime :: "time_value \<Rightarrow> bool" where
  "validTime t = (- maxTime \<le> t \<and> t \<le> maxTime)"

definition TimeClip :: "int \<Rightarrow> Date" where
  "TimeClip time = (if maxTime < \<bar>time\<bar> then None else Some time)"

definition msPerDay :: int where
  "msPerDay = 86400000"

definition msPerHour :: int where
  "msPerHour = 3600000"

definition msPerMinute :: int where
  "msPerMinute = 60000"

definition msPerSecond :: int where
  "msPerSecond = 1000"

definition Day :: "time_value \<Rightarrow> int" where
  "Day t = t div msPerDay"

definition HourFromTime :: "time_value \<Rightarrow> int" where
  "HourFromTime t = (t div msPerHour) mod 24"

definition DayFromYear :: "int \<Rightarrow> int" where
  "DayFromYear y =
     365 * (y - 1970) + (y - 1969) div 4 - (y - 1901) div 100 + (y - 1601) div 400"

definition DaysInYear :: "int \<Rightarrow> int" where
  "DaysInYear y =
     (if y mod 4 \<noteq> 0 then 365
      else if y mod 100 \<noteq> 0 then 366
      else if y mod 400 \<noteq> 0 then 365
      else 366)"

text \<open>
  ECMA-262 specifies \<open>YearFromTime t\<close> as the largest \<open>y\<close> whose first day is not
  after \<open>t\<close>. It is computed from an estimate by the mean length of a year (400 years
  are 146097 days), which is off by one year at most.
\<close>

definition YearFromDay :: "int \<Rightarrow> int" where
  "YearFromDay d =
     (let y = 1970 + (400 * d) div 146097
      in if d < DayFromYear y then y - 1
         else if d < DayFromYear (y + 1) then y
         else y + 1)"

definition YearFromTime :: "time_value \<Rightarrow> int" where
  "YearFromTime t = YearFromDay (Day t)"

definition InLeapYear :: "time_value \<Rightarrow> int" where
  "InLeapYear t = (if DaysInYear (YearFromTime t) = 366 then 1 else 0)"

definition DayWithinYear :: "time_value \<Rightarrow> int" where
  "DayWithinYear t = Day t - DayFromYear (YearFromTime t)"

definition MonthFromTime :: "time_value \<Rightarrow> int" where
  "MonthFromTime t =
     (let d = DayWithinYear t; l = InLeapYear t
      in if d < 31 then 0
         else if d < 59 + l then 1
         else if d < 90 + l then 2
         else if d < 120 + l then 3
         else if d < 151 + l then 4
         else if d < 181 + l then 5
         else if d < 212 + l then 6
         else if d < 243 + l then 7
         else if d < 273 + l then 8
         else if d < 304 + l then 9
         else if d < 334 + l then 10
         else 11)"

definition DateFromTime :: "time_value \<Rightarrow> int" where
  "DateFromTime t =
     (let d = DayWithinYear t; l = InLeapYear t; m = MonthFromTime t
      in if m = 0 then d + 1
         else if m = 1 then d - 30
         else if m = 2 then d - 58 - l
         else if m = 3 then d - 89 - l
         else if m = 4 then d - 119 - l
         else if m = 5 then d - 150 - l
         else if m = 6 then d - 180 - l
         else if m = 7 then d - 211 - l
         else if m = 8 then d - 242 - l
         else if m = 9 then d - 272 - l
         else if m = 10 then d - 303 - l
         else d - 333 - l)"

definition MakeTime :: "int \<Rightarrow> int \<Rightarrow> int \<Rightarrow> int \<Rightarrow> int" where
  "MakeTime hour minute sec ms =
     hour * msPerHour + minute * msPerMinute + sec * msPerSecond + ms"

definition MakeDate :: "int \<Rightarrow> int \<Rightarrow> time_value" where
  "MakeDate day time = day * msPerDay + time"

text \<open>
  The methods of a Date. A getter of an invalid Date gives \<open>NaN\<close>, again \<open>None\<close>; a
  setter leaves an invalid Date invalid and clips the time value it makes. Copying a Date
  (\<open>new Date(date)\<close>) clips its time value.
\<close>

definition new_Date :: "Date \<Rightarrow> Date" where
  "new_Date date = (case date of None \<Rightarrow> None | Some tv \<Rightarrow> TimeClip tv)"

definition getUTCFullYear :: "Date \<Rightarrow> int option" where
  "getUTCFullYear date = (case date of None \<Rightarrow> None | Some t \<Rightarrow> Some (YearFromTime t))"

definition getUTCMonth :: "Date \<Rightarrow> int option" where
  "getUTCMonth date = (case date of None \<Rightarrow> None | Some t \<Rightarrow> Some (MonthFromTime t))"

definition getUTCDate :: "Date \<Rightarrow> int option" where
  "getUTCDate date = (case date of None \<Rightarrow> None | Some t \<Rightarrow> Some (DateFromTime t))"

definition getUTCHours :: "Date \<Rightarrow> int option" where
  "getUTCHours date = (case date of None \<Rightarrow> None | Some t \<Rightarrow> Some (HourFromTime t))"

definition setUTCHours :: "Date \<Rightarrow> int \<Rightarrow> int \<Rightarrow> int \<Rightarrow> int \<Rightarrow> Date" where
  "setUTCHours date hour minute sec ms =
     (case date of
        None \<Rightarrow> None
      | Some t \<Rightarrow> TimeClip (MakeDate (Day t) (MakeTime hour minute sec ms)))"

text \<open>
  The operator \<open>!==\<close> on two numbers, either of which may be \<open>NaN\<close>: \<open>NaN\<close> is unequal
  to every number, itself included.
\<close>

definition strict_neq :: "int option \<Rightarrow> int option \<Rightarrow> bool" where
  "strict_neq a b =
     (case a of
        None \<Rightarrow> True
      | Some x \<Rightarrow> (case b of None \<Rightarrow> True | Some y \<Rightarrow> x \<noteq> y))"

section \<open>The allowance calculator\<close>

text \<open>
  \<open>calculateDailyAllowance\<close> of \<open>Frame.tsx\<close>. The source reads the clock
  (\<open>new Date()\<close>) and two constants that the file does not define,
  \<open>DAILY_ALLOWANCE\<close> and \<open>ALLOWANCE_RESET_HOUR\<close>; all three are parameters here.
  The result is a number, \<open>None\<close> for \<open>NaN\<close> (what \<open>Math.max\<close> gives for a \<open>NaN\<close>
  argument).
\<close>

definition calculateDailyAllowance :: "int \<Rightarrow> int \<Rightarrow> Date \<Rightarrow> Date \<Rightarrow> int option" where
  "calculateDailyAllowance DAILY_ALLOWANCE ALLOWANCE_RESET_HOUR now lastUpdated =
     (let lastReset = new_Date lastUpdated;
          lastReset = setUTCHours lastReset ALLOWANCE_RESET_HOUR 0 0 0
      in if strict_neq (getUTCDate now) (getUTCDate lastReset) \<or>
            strict_neq (getUTCMonth now) (getUTCMonth lastReset) \<or>
            strict_neq (getUTCFullYear now) (getUTCFullYear lastReset)
         then Some DAILY_ALLOWANCE
         else (case getUTCHours now of
                 None \<Rightarrow> None
               | Some hours \<Rightarrow>
                   Some (max (DAILY_ALLOWANCE - (hours - ALLOWANCE_RESET_HOUR) * 1) 0)))"

section \<open>Numbers\<close>

text \<open>
  An identifier is a Number: an integer that a double represents, or an infinity
  (\<open>NaN\<close> is kept apart, as \<open>None\<close>, where it can occur). \<open>toNumber\<close> is the Number
  for a mathematical integer: the integer itself below \<open>2^53\<close> in absolute value, and
  otherwise the nearest value with a significand of 53 bits, a tie going to the even
  significand, and an infinity from \<open>2^1024\<close> on.
\<close>

datatype Number = Finite int | PosInfinity | NegInfinity

function bitLength :: "int \<Rightarrow> nat" where
  "bitLength n = (if n \<le> 0 then 0 else Suc (bitLength (n div 2)))"
  by pat_completeness auto

termination
  by (relation "measure nat") auto

declare bitLength.simps [simp del]

definition toNumber :: "int \<Rightarrow> Number" where
  "toNumber x =
     (let m = \<bar>x\<bar>
      in if m < 2 ^ 53 then Finite x
         else
           let e = bitLength m - 53;
               q = m div 2 ^ e;
               r = m mod 2 ^ e;
               half = 2 ^ (e - 1);
               q = (if half < r \<or> (r = half \<and> odd q) then q + 1 else q)
           in if 2 ^ 1024 \<le> q * 2 ^ e
              then (if x < 0 then NegInfinity else PosInfinity)
              else Finite (sgn x * (q * 2 ^ e)))"

section \<open>Data model of the view\<close>

record NutStats =
  fid :: Number
  username :: string
  sent :: int
  received :: int
  failedAttempts :: int
  lastUpdated :: Date

record LeaderboardEntry =
  entry_fid :: int
  entry_username :: string
  totalPoints :: int

datatype ViewState = STATS | LEADERBOARD | SEARCH

text \<open>
  The part of the host's frame context that the view reads: \<open>context.client.added\<close>
  and \<open>context.actor?.fid\<close> (the actor may be absent).
\<close>

record Actor =
  actor_fid :: Number

record FrameContext =
  client_added :: bool
  actor :: "Actor option"

text \<open>The state slices of the \<open>Frame\<close> component, one field for each \<open>useState\<close>.\<close>

record FrameState =
  isSDKLoaded :: bool
  frameContext :: "FrameContext option"
  currentView :: ViewState
  userStats :: "NutStats option"
  leaderboard :: "LeaderboardEntry list"
  searchFid :: string
  searchResults :: "NutStats option"
  error :: string
  added :: bool
  addFrameResult :: string

definition initial_state :: FrameState where
  "initial_state =
     \<lparr>isSDKLoaded = False, frameContext = None, currentView = STATS, userStats = None,
      leaderboard = [], searchFid = [], searchResults = None, error = [],
      added = False, addFrameResult = []\<rparr>"

section \<open>The two clients\<close>

text \<open>
  A thrown value is an \<open>Error\<close> with its message, or some other value; the handlers
  tell them apart with \<open>err instanceof Error\<close>.
\<close>

datatype thrown = Error string | NonError

text \<open>
  What \<open>fetch\<close> gives back for one request: the promise rejects (\<open>Inl\<close>), or it
  resolves to a response with its \<open>ok\<close> flag and the outcome of \<open>response.json()\<close>,
  which may reject as well. The network is a parameter: one answer for the stats of each
  identifier and one for the leaderboard. Every request a handler issues is recorded.
\<close>

record 'a Response =
  ok :: bool
  json :: "thrown + 'a"

record Network =
  stats_endpoint :: "Number \<Rightarrow> thrown + NutStats Response"
  leaderboard_endpoint :: "thrown + LeaderboardEntry list Response"

datatype request = StatsRequest Number | LeaderboardRequest

definition fetchNutStats :: "Network \<Rightarrow> Number \<Rightarrow> thrown + NutStats" where
  "fetchNutStats net n =
     (case stats_endpoint net n of
        Inl err \<Rightarrow> Inl err
      | Inr response \<Rightarrow>
          if \<not> ok response then Inl (Error ''Failed to fetch stats'') else json response)"

definition fetchLeaderboard :: "Network \<Rightarrow> thrown + LeaderboardEntry list" where
  "fetchLeaderboard net =
     (case leaderboard_endpoint net of
        Inl err \<Rightarrow> Inl err
      | Inr response \<Rightarrow>
          if \<not> ok response then Inl (Error ''Failed to fetch leaderboard'') else json response)"

section \<open>parseInt\<close>

text \<open>
  \<open>parseInt(string)\<close> of ECMA-262 with no radix given: leading white space is
  dropped, a sign is read, a prefix \<open>0x\<close> or \<open>0X\<close> switches to radix 16, and the longest
  prefix of digits of the radix is read as an integer; the result is the Number for that
  integer with its sign, or \<open>NaN\<close> (\<open>None\<close>) when there is no digit at all.
  A character is one code unit; the white space beyond code unit 255 is not
  representable in \<open>char\<close>. For more than 20 significant decimal digits ECMA-262 lets an
  implementation read the digits after the 20th as zeros; here every digit counts.
\<close>

definition isStrWhiteSpaceChar :: "char \<Rightarrow> bool" where
  "isStrWhiteSpaceChar c =
     (of_char c \<in> {9, 10, 11, 12, 13, 32, 160 :: nat})"

definition digitValue :: "char \<Rightarrow> nat option" where
  "digitValue c =
     (let n = of_char c :: nat
      in if 48 \<le> n \<and> n \<le> 57 then Some (n - 48)
         else if 97 \<le> n \<and> n \<le> 122 then Some (n - 87)
         else if 65 \<le> n \<and> n \<le> 90 then Some (n - 55)
         else None)"

definition isRadixDigit :: "nat \<Rightarrow> char \<Rightarrow> bool" where
  "isRadixDigit R c = (case digitValue c of None \<Rightarrow> False | Some v \<Rightarrow> v < R)"

definition radixValue :: "nat \<Rightarrow> string \<Rightarrow> int" where
  "radixValue R Z =
     foldl (\<lambda>a c. case digitValue c of None \<Rightarrow> a | Some v \<Rightarrow> a * int R + int v) 0 Z"

text \<open>The steps of \<open>parseInt\<close> after the sign: the prefix, the radix and the digits.\<close>

definition parseDigits :: "int \<Rightarrow> string \<Rightarrow> Number option" where
  "parseDigits sign S =
     (let stripPrefix = (take 2 S = ''0x'' \<or> take 2 S = ''0X'');
          R = (if stripPrefix then 16 else 10);
          S = (if stripPrefix then drop 2 S else S);
          Z = takeWhile (isRadixDigit R) S
      in if Z = [] then None else Some (toNumber (sign * radixValue R Z)))"

definition parseInt :: "string \<Rightarrow> Number option" where
  "parseInt string =
     (let S = dropWhile isStrWhiteSpaceChar string;
          sign = (if take 1 S = ''-'' then - 1 else 1 :: int);
          S = (if take 1 S = ''+'' \<or> take 1 S = ''-'' then drop 1 S else S)
      in parseDigits sign S)"

section \<open>The search handler\<close>

text \<open>
  Each handler runs to its end as one step on the state: it takes the network and the
  state before, and gives the state after together with the requests it issued, in order.
\<close>

definition message_or :: "string \<Rightarrow> thrown \<Rightarrow> string" where
  "message_or fallback err = (case err of Error message \<Rightarrow> message | NonError \<Rightarrow> fallback)"

definition handleSearch_catch :: "thrown \<Rightarrow> FrameState \<Rightarrow> FrameState" where
  "handleSearch_catch err s =
     s\<lparr>error := message_or ''Failed to search'' err, searchResults := None\<rparr>"

definition handleSearch :: "Network \<Rightarrow> FrameState \<Rightarrow> FrameState \<times> request list" where
  "handleSearch net s =
     (if searchFid s = [] then (s, [])
      else case parseInt (searchFid s) of
        None \<Rightarrow> (handleSearch_catch (Error ''Invalid FID'') s, [])
      | Some n \<Rightarrow>
          (case fetchNutStats net n of
             Inl err \<Rightarrow> (handleSearch_catch err s, [StatsRequest n])
           | Inr results \<Rightarrow>
               (s\<lparr>searchResults := Some results, error := []\<rparr>, [StatsRequest n])))"

section \<open>The refresh cycle\<close>

text \<open>
  The condition \<open>context?.client.added && context.actor?.fid\<close>, with the identifier it
  lets through: a missing context, a frame not added, a missing actor and the falsy
  identifier \<open>0\<close> all skip the stats fetch.
\<close>

definition ownFid :: "FrameState \<Rightarrow> Number option" where
  "ownFid s =
     (case frameContext s of
        None \<Rightarrow> None
      | Some c \<Rightarrow>
          if client_added c
          then (case actor c of
                  None \<Rightarrow> None
                | Some a \<Rightarrow> if actor_fid a = Finite 0 then None else Some (actor_fid a))
          else None)"

definition loadInitialData_catch :: "thrown \<Rightarrow> FrameState \<Rightarrow> FrameState" where
  "loadInitialData_catch err s = s\<lparr>error := message_or ''Failed to load data'' err\<rparr>"

definition loadLeaderboard :: "Network \<Rightarrow> FrameState \<Rightarrow> FrameState" where
  "loadLeaderboard net s =
     (case fetchLeaderboard net of
        Inl err \<Rightarrow> loadInitialData_catch err s
      | Inr leaderboardData \<Rightarrow> s\<lparr>leaderboard := leaderboardData\<rparr>)"

definition loadInitialData :: "Network \<Rightarrow> FrameState \<Rightarrow> FrameState \<times> request list" where
  "loadInitialData net s =
     (case ownFid s of
        Some n \<Rightarrow>
          (case fetchNutStats net n of
             Inl err \<Rightarrow> (loadInitialData_catch err s, [StatsRequest n])
           | Inr stats \<Rightarrow>
               (loadLeaderboard net (s\<lparr>userStats := Some stats\<rparr>),
                [StatsRequest n, LeaderboardRequest]))
      | None \<Rightarrow> (loadLeaderboard net s, [LeaderboardRequest]))"

section \<open>Switching the view\<close>

text \<open>
  The three buttons call \<open>setCurrentView\<close>. After a state change the component renders
  again and an effect runs when one of its dependencies has changed; the refresh effect
  depends on the context alone.
\<close>

definition setCurrentView :: "ViewState \<Rightarrow> FrameState \<Rightarrow> FrameState" where
  "setCurrentView v s = s\<lparr>currentView := v\<rparr>"

definition refreshEffect :: "Network \<Rightarrow> FrameState \<Rightarrow> FrameState \<Rightarrow> FrameState \<times> request list" where
  "refreshEffect net before s =
     (if frameContext s = frameContext before then (s, []) else loadInitialData net s)"

definition selectView :: "Network \<Rightarrow> ViewState \<Rightarrow> FrameState \<Rightarrow> FrameState \<times> request list" where
  "selectView net v s = refreshEffect net s (setCurrentView v s)"

fun selectViews :: "Network \<Rightarrow> ViewState list \<Rightarrow> FrameState \<Rightarrow> FrameState \<times> request list" where
  "selectViews net [] s = (s, [])"
| "selectViews net (v # vs) s =
     (case selectView net v s of
        (s', requests) \<Rightarrow>
          (case selectViews net vs s' of (s'', requests') \<Rightarrow> (s'', requests @ requests')))"

section \<open>Sample data\<close>

definition sample_stats :: NutStats where
  "sample_stats =
     \<lparr>fid = Finite 12, username = ''pistachio'', sent = 3, received = 5, failedAttempts = 1,
      lastUpdated = Some 1738454400000\<rparr>"

definition sample_board :: "LeaderboardEntry list" where
  "sample_board =
     [\<lparr>entry_fid = 2, entry_username = ''almond'', totalPoints = 40\<rparr>,
      \<lparr>entry_fid = 12, entry_username = ''pistachio'', totalPoints = 8\<rparr>]"

definition net_up :: Network where
  "net_up =
     \<lparr>stats_endpoint = (\<lambda>n. Inr \<lparr>ok = True, json = Inr (sample_stats\<lparr>fid := n\<rparr>)\<rparr>),
      leaderboard_endpoint = Inr \<lparr>ok = True, json = Inr sample_board\<rparr>\<rparr>"

definition net_stats_down :: Network where
  "net_stats_down =
     \<lparr>stats_endpoint = (\<lambda>n. Inr \<lparr>ok = False, json = Inl (Error ''Unexpected token'')\<rparr>),
      leaderboard_endpoint = Inr \<lparr>ok = True, json = Inr sample_board\<rparr>\<rparr>"

definition net_board_down :: Network where
  "net_board_down =
     \<lparr>stats_endpoint = (\<lambda>n. Inr \<lparr>ok = True, json = Inr (sample_stats\<lparr>fid := n\<rparr>)\<rparr>),
      leaderboard_endpoint = Inl (Error ''Failed to fetch'')\<rparr>"

definition net_board_refused :: Network where
  "net_board_refused =
     \<lparr>stats_endpoint = (\<lambda>n. Inr \<lparr>ok = True, json = Inr (sample_stats\<lparr>fid := n\<rparr>)\<rparr>),
      leaderboard_endpoint = Inr \<lparr>ok = False, json = Inr []\<rparr>\<rparr>"

definition signed_in :: FrameState where
  "signed_in =
     initial_state\<lparr>isSDKLoaded := True,
       frameContext := Some \<lparr>client_added = True, actor = Some \<lparr>actor_fid = Finite 7\<rparr>\<rparr>,
       added := True\<rparr>"

section \<open>Properties of the allowance calculator\<close>

subsection \<open>The year of a day\<close>

text \<open>
  \<open>YearFromDay\<close> meets the specification of ECMA-262: the year it gives starts on or
  before the day, the next year starts after it, and no later year starts on or before
  the day.
\<close>

lemma floor_div_bounds:
  fixes x n :: int
  assumes "0 < n"
  obtains q where "q = x div n" and "n * q \<le> x" and "x < n * q + n"
proof
  show "x div n = x div n" ..
  have "x = n * (x div n) + x mod n"
    by simp
  moreover have "0 \<le> x mod n" "x mod n < n"
    using assms by simp_all
  ultimately show "n * (x div n) \<le> x" "x < n * (x div n) + n"
    by (metis add.commute le_add_same_cancel2, metis add_strict_left_mono)
qed

lemma leap_terms_bounds:
  fixes a b c u :: int
  assumes "4 * a \<le> u + 1" "u + 1 < 4 * a + 4"
    and "100 * b \<le> u + 69" "u + 69 < 100 * b + 100"
    and "400 * c \<le> u + 369" "u + 369 < 400 * c + 400"
  shows "146097 * u - 800 < 400 * (365 * u + a - b + c)"
    and "400 * (365 * u + a - b + c) < 146097 * u + 800"
  using assms by auto

lemma DayFromYear_near_mean:
  "146097 * (y - 1970) - 800 < 400 * DayFromYear y"
  "400 * DayFromYear y < 146097 * (y - 1970) + 800"
proof -
  obtain a where a: "a = (y - 1969) div 4" "4 * a \<le> y - 1969" "y - 1969 < 4 * a + 4"
    by (rule floor_div_bounds [of 4 "y - 1969"]) simp_all
  obtain b where b: "b = (y - 1901) div 100" "100 * b \<le> y - 1901" "y - 1901 < 100 * b + 100"
    by (rule floor_div_bounds [of 100 "y - 1901"]) simp_all
  obtain c where c: "c = (y - 1601) div 400" "400 * c \<le> y - 1601" "y - 1601 < 400 * c + 400"
    by (rule floor_div_bounds [of 400 "y - 1601"]) simp_all
  have d: "DayFromYear y = 365 * (y - 1970) + a - b + c"
    by (simp add: DayFromYear_def a(1) b(1) c(1))
  have "146097 * (y - 1970) - 800 < 400 * (365 * (y - 1970) + a - b + c)"
    by (rule leap_terms_bounds(1) [of a "y - 1970" b c]) (use a(2,3) b(2,3) c(2,3) in simp_all)
  moreover have "400 * (365 * (y - 1970) + a - b + c) < 146097 * (y - 1970) + 800"
    by (rule leap_terms_bounds(2) [of a "y - 1970" b c]) (use a(2,3) b(2,3) c(2,3) in simp_all)
  ultimately show "146097 * (y - 1970) - 800 < 400 * DayFromYear y"
    "400 * DayFromYear y < 146097 * (y - 1970) + 800"
    by (simp_all only: d)
qed

lemma YearFromDay_bracket:
  fixes d e :: int
  assumes "146097 * e \<le> 400 * d" and "400 * d < 146097 * e + 146097"
  shows "DayFromYear (1970 + e - 1) \<le> d" and "d < DayFromYear (1970 + e + 2)"
proof -
  obtain lo where lo: "lo = DayFromYear (1970 + e - 1)" "400 * lo < 146097 * (e - 1) + 800"
    using DayFromYear_near_mean(2) [of "1970 + e - 1"] by simp
  obtain hi where hi: "hi = DayFromYear (1970 + e + 2)" "146097 * (e + 2) - 800 < 400 * hi"
    using DayFromYear_near_mean(1) [of "1970 + e + 2"] by simp
  have "lo \<le> d" "d < hi"
    using assms lo(2) hi(2) by auto
  then show "DayFromYear (1970 + e - 1) \<le> d" and "d < DayFromYear (1970 + e + 2)"
    by (simp_all only: lo(1) hi(1))
qed

lemma YearFromDay_spec:
  "DayFromYear (YearFromDay d) \<le> d \<and> d < DayFromYear (YearFromDay d + 1)"
proof -
  obtain e where e: "e = (400 * d) div 146097" "146097 * e \<le> 400 * d"
    "400 * d < 146097 * e + 146097"
    by (rule floor_div_bounds [of 146097 "400 * d"]) simp_all
  define y where "y = 1970 + e"
  have lo: "DayFromYear (y - 1) \<le> d" and hi: "d < DayFromYear (y + 1 + 1)"
    using YearFromDay_bracket [OF e(2,3)] by (simp_all add: y_def add.assoc)
  have Y: "YearFromDay d =
      (if d < DayFromYear y then y - 1 else if d < DayFromYear (y + 1) then y else y + 1)"
    by (simp add: YearFromDay_def Let_def y_def e(1))
  show ?thesis
  proof (cases "d < DayFromYear y")
    case True
    then show ?thesis using lo by (simp add: Y)
  next
    case False
    then show ?thesis using hi by (simp add: Y)
  qed
qed

lemma div_succ:
  fixes x n :: int
  assumes "0 < n"
  shows "(x + 1) div n = x div n + (if (x + 1) mod n = 0 then 1 else 0)"
proof (cases "x mod n + 1 < n")
  case True
  have "x + 1 = n * (x div n) + (x mod n + 1)"
    by simp
  moreover have "0 \<le> x mod n + 1"
    using assms by (simp add: add_nonneg_nonneg)
  ultimately have "(x + 1) div n = x div n" "(x + 1) mod n = x mod n + 1"
    using True int_div_pos_eq [of "x + 1" n "x div n" "x mod n + 1"]
      int_mod_pos_eq [of "x + 1" n "x div n" "x mod n + 1"] by simp_all
  moreover have "0 < x mod n + 1"
    using assms by (simp add: add_nonneg_pos)
  ultimately show ?thesis
    by simp
next
  case False
  moreover have "x mod n < n"
    using assms by simp
  ultimately have m: "x mod n + 1 = n"
    by simp
  have "x + 1 = n * (x div n) + (x mod n + 1)"
    by simp
  then have "x + 1 = n * (x div n + 1) + 0"
    by (simp only: m distrib_left mult_1_right add_0_right)
  then have "(x + 1) div n = x div n + 1" "(x + 1) mod n = 0"
    using assms int_div_pos_eq [of "x + 1" n "x div n + 1" 0]
      int_mod_pos_eq [of "x + 1" n "x div n + 1" 0] by simp_all
  then show ?thesis
    by simp
qed

lemma mod_shift:
  fixes y :: int
  shows "(y - 1968) mod 4 = y mod 4" "(y - 1900) mod 100 = y mod 100"
    "(y - 1600) mod 400 = y mod 400"
proof -
  have "y - 1968 = y + 4 * (- 492)" "y - 1900 = y + 100 * (- 19)"
    "y - 1600 = y + 400 * (- 4)"
    by simp_all
  then show "(y - 1968) mod 4 = y mod 4" "(y - 1900) mod 100 = y mod 100"
    "(y - 1600) mod 400 = y mod 400"
    by (simp_all only: mod_mult_self2)
qed

lemma mod_400_100_4:
  fixes y :: int
  shows "y mod 400 = 0 \<Longrightarrow> y mod 100 = 0" and "y mod 100 = 0 \<Longrightarrow> y mod 4 = 0"
proof -
  have "(100::int) dvd 400" "(4::int) dvd 100"
    by simp_all
  then show "y mod 400 = 0 \<Longrightarrow> y mod 100 = 0" and "y mod 100 = 0 \<Longrightarrow> y mod 4 = 0"
    by (metis dvd_trans mod_eq_0_iff_dvd)+
qed

lemma DayFromYear_step: "DayFromYear (y + 1) = DayFromYear y + DaysInYear y"
proof -
  have a: "(y + 1 - 1969) div 4 = (y - 1969) div 4 + (if y mod 4 = 0 then 1 else 0)"
    using div_succ [of 4 "y - 1969"] by (simp add: mod_shift)
  have b: "(y + 1 - 1901) div 100 = (y - 1901) div 100 + (if y mod 100 = 0 then 1 else 0)"
    using div_succ [of 100 "y - 1901"] by (simp add: mod_shift)
  have c: "(y + 1 - 1601) div 400 = (y - 1601) div 400 + (if y mod 400 = 0 then 1 else 0)"
    using div_succ [of 400 "y - 1601"] by (simp add: mod_shift)
  show ?thesis
    unfolding DayFromYear_def DaysInYear_def a b c
    using mod_400_100_4 [of y] by (simp split: if_splits)
qed

lemma DaysInYear_pos: "0 < DaysInYear y"
  by (simp add: DaysInYear_def)

lemma DayFromYear_mono:
  assumes "y \<le> y'"
  shows "DayFromYear y \<le> DayFromYear y'"
proof -
  have "DayFromYear y \<le> DayFromYear (y + int k)" for k
  proof (induction k)
    case 0
    then show ?case by simp
  next
    case (Suc k)
    have "DayFromYear (y + int (Suc k)) = DayFromYear (y + int k) + DaysInYear (y + int k)"
      using DayFromYear_step [of "y + int k"] by (simp add: ac_simps)
    with Suc DaysInYear_pos [of "y + int k"] show ?case
      by simp
  qed
  from this [of "nat (y' - y)"] assms show ?thesis
    by simp
qed

lemma YearFromDay_largest:
  assumes "DayFromYear y \<le> d"
  shows "y \<le> YearFromDay d"
proof (rule ccontr)
  assume "\<not> y \<le> YearFromDay d"
  then have "YearFromDay d + 1 \<le> y"
    by simp
  then have "DayFromYear (YearFromDay d + 1) \<le> DayFromYear y"
    by (rule DayFromYear_mono)
  with assms YearFromDay_spec [of d] show False
    by simp
qed

subsection \<open>Calendar dates and days\<close>

lemma DayWithinYear_range:
  "0 \<le> DayWithinYear t \<and> DayWithinYear t < DaysInYear (YearFromTime t)"
  using YearFromDay_spec [of "Day t"] DayFromYear_step [of "YearFromDay (Day t)"]
  by (simp add: DayWithinYear_def YearFromTime_def)

lemma same_Day_same_date:
  assumes "Day a = Day b"
  shows "YearFromTime a = YearFromTime b"
    and "MonthFromTime a = MonthFromTime b"
    and "DateFromTime a = DateFromTime b"
  using assms
  by (simp_all add: YearFromTime_def MonthFromTime_def DateFromTime_def DayWithinYear_def
      InLeapYear_def)

lemma same_date_same_Day:
  assumes y: "YearFromTime a = YearFromTime b"
    and m: "MonthFromTime a = MonthFromTime b"
    and "DateFromTime a = DateFromTime b"
  shows "Day a = Day b"
proof -
  have l: "InLeapYear a = InLeapYear b"
    using y by (simp add: InLeapYear_def)
  have "DateFromTime a = DateFromTime b"
    by fact
  then have "DayWithinYear a = DayWithinYear b"
    unfolding DateFromTime_def Let_def m l by (simp split: if_splits)
  then show ?thesis
    using y by (simp add: DayWithinYear_def)
qed

lemma same_date_iff_same_Day:
  "YearFromTime a = YearFromTime b \<and> MonthFromTime a = MonthFromTime b \<and>
   DateFromTime a = DateFromTime b \<longleftrightarrow> Day a = Day b"
  using same_date_same_Day [of a b] same_Day_same_date [of a b] by blast

lemma date_ranges:
  "0 \<le> MonthFromTime t \<and> MonthFromTime t \<le> 11 \<and> 1 \<le> DateFromTime t \<and> DateFromTime t \<le> 31"
proof -
  define d where "d = DayWithinYear t"
  define l where "l = InLeapYear t"
  have l: "l = 0 \<or> l = 1"
    by (simp add: l_def InLeapYear_def)
  have "DaysInYear (YearFromTime t) = 365 + l"
    by (simp add: l_def InLeapYear_def DaysInYear_def)
  then have d: "0 \<le> d" "d < 365 + l"
    using DayWithinYear_range [of t] by (simp_all add: d_def)
  have "0 \<le> MonthFromTime t \<and> MonthFromTime t \<le> 11"
    by (simp add: MonthFromTime_def Let_def)
  moreover have "1 \<le> DateFromTime t \<and> DateFromTime t \<le> 31"
    unfolding DateFromTime_def MonthFromTime_def Let_def d_def [symmetric] l_def [symmetric]
    using d l by auto
  ultimately show ?thesis
    by simp
qed

lemma HourFromTime_range: "0 \<le> HourFromTime t \<and> HourFromTime t \<le> 23"
  by (simp add: HourFromTime_def)

subsection \<open>The reset instant\<close>

text \<open>
  Setting the hour keeps the day. The instant made is a time value a Date can hold,
  except on the last day of the range, which has the single instant \<open>maxTime\<close>.
\<close>

lemma Day_reset:
  assumes "0 \<le> h" "h \<le> 23"
  shows "Day (MakeDate (Day t) (MakeTime h 0 0 0)) = Day t"
proof -
  have "0 \<le> h * 3600000" "h * 3600000 < 86400000"
    using assms by auto
  then have "(h * 3600000 + (t div 86400000) * 86400000) div 86400000 = t div 86400000"
    by simp
  then show ?thesis
    by (simp add: Day_def MakeDate_def MakeTime_def msPerDay_def msPerHour_def add.commute)
qed

lemma TimeClip_reset:
  assumes "0 \<le> h" "h \<le> 23" and "validTime t"
  shows "TimeClip (MakeDate (Day t) (MakeTime h 0 0 0)) =
           (if t = maxTime \<and> h \<noteq> 0 then None
            else Some (MakeDate (Day t) (MakeTime h 0 0 0)))"
proof -
  obtain q where q: "q = t div 86400000" "86400000 * q \<le> t" "t < 86400000 * q + 86400000"
    by (rule floor_div_bounds [of 86400000 t]) simp_all
  have t: "- 8640000000000000 \<le> t" "t \<le> 8640000000000000"
    using assms(3) by (simp_all add: validTime_def maxTime_def)
  have r: "MakeDate (Day t) (MakeTime h 0 0 0) = 86400000 * q + 3600000 * h"
    by (simp add: MakeDate_def MakeTime_def Day_def msPerDay_def msPerHour_def q(1))
  have "86400000 * (- 100000000) < 86400000 * (q + 1)"
    using q(3) t(1) by simp
  then have lo: "- 100000000 \<le> q"
    by simp
  have hi: "q \<le> 99999999" if "t < 8640000000000000"
  proof -
    have "86400000 * q < 86400000 * 100000000"
      using q(2) that by simp
    then show ?thesis
      by simp
  qed
  define x where "x = 86400000 * q + 3600000 * h"
  have "8640000000000000 < \<bar>x\<bar> \<longleftrightarrow> t = 8640000000000000 \<and> h \<noteq> 0"
  proof (cases "t = 8640000000000000 \<and> h \<noteq> 0")
    case True
    then have "8640000000000000 < x"
      using q(2,3) assms(1) by (auto simp add: x_def)
    with True show ?thesis
      by simp
  next
    case False
    then consider "t < 8640000000000000" | "h = 0"
      using t(2) by fastforce
    then have "x \<le> 8640000000000000"
    proof cases
      case 1
      then have "q \<le> 99999999"
        by (rule hi)
      then show ?thesis
        using assms(2) by (simp add: x_def)
    next
      case 2
      then show ?thesis
        using q(2) t(2) by (simp add: x_def)
    qed
    moreover have "- 8640000000000000 \<le> x"
      using lo assms(1) by (simp add: x_def)
    ultimately show ?thesis
      using False by auto
  qed
  then show ?thesis
    unfolding r x_def [symmetric] TimeClip_def maxTime_def by simp
qed

lemma lastReset_date:
  assumes "0 \<le> h" "h \<le> 23" and "validTime t"
  shows "setUTCHours (new_Date (Some t)) h 0 0 0 =
           (if t = maxTime \<and> h \<noteq> 0 then None
            else Some (MakeDate (Day t) (MakeTime h 0 0 0)))"
proof -
  have "new_Date (Some t) = Some t"
    using assms(3) by (auto simp add: new_Date_def TimeClip_def validTime_def)
  then show ?thesis
    using TimeClip_reset [OF assms] by (simp add: setUTCHours_def)
qed


lemma calendar_feb2_0h:
  "YearFromTime 1738454400000 = 2025" "MonthFromTime 1738454400000 = 1"
  "DateFromTime 1738454400000 = 2" "HourFromTime 1738454400000 = 0"
  by code_simp+


lemma calendar_feb2_3h:
  "YearFromTime 1738465200000 = 2025" "MonthFromTime 1738465200000 = 1"
  "DateFromTime 1738465200000 = 2" "HourFromTime 1738465200000 = 3"
  by code_simp+



lemma validTime_samples:
  "validTime 1738450800000" "validTime 1738454400000" "validTime 8640000000000000"
  by (simp_all add: validTime_def maxTime_def)

lemma calculateDailyAllowance_valid:
  assumes "0 \<le> h" "h \<le> 23" and "validTime t"
  shows "calculateDailyAllowance A h (Some now) (Some t) =
           (if (t = maxTime \<and> h \<noteq> 0) \<or>
               (YearFromTime t, MonthFromTime t, DateFromTime t) \<noteq>
               (YearFromTime now, MonthFromTime now, DateFromTime now)
            then Some A
            else Some (max (A - (HourFromTime now - h)) 0))"
proof (cases "t = maxTime \<and> h \<noteq> 0")
  case True
  then show ?thesis
    unfolding calculateDailyAllowance_def Let_def lastReset_date [OF assms]
    by (simp add: getUTCDate_def strict_neq_def)
next
  case False
  let ?r = "MakeDate (Day t) (MakeTime h 0 0 0)"
  note d = same_Day_same_date [OF Day_reset [OF assms(1,2), of t]]
  from False show ?thesis
    unfolding calculateDailyAllowance_def Let_def lastReset_date [OF assms]
    by (auto simp add: getUTCDate_def getUTCMonth_def getUTCFullYear_def getUTCHours_def
        strict_neq_def d)
qed




text \<open>
  Claim C2 does not hold of the code. On the date of \<open>last_updated\<close>, at an hour of day
  before the reset hour, the result is the daily allowance plus the hours still to go
  until the reset hour, which is more than the daily allowance: with allowance 10 and
  reset hour 8, at 03:00 the result is 15. The lower bound of the claim does hold; the
  bounds of the result are in \<open>calculateDailyAllowance_bounds\<close> below.
\<close>

theorem calculateDailyAllowance_before_reset_hour:
  assumes "0 \<le> ALLOWANCE_RESET_HOUR" and "ALLOWANCE_RESET_HOUR \<le> 23"
    and "0 \<le> DAILY_ALLOWANCE"
    and "validTime last_updated" and "last_updated \<noteq> maxTime"
    and "YearFromTime last_updated = YearFromTime now"
    and "MonthFromTime last_updated = MonthFromTime now"
    and "DateFromTime last_updated = DateFromTime now"
    and "HourFromTime now < ALLOWANCE_RESET_HOUR"
  shows "calculateDailyAllowance DAILY_ALLOWANCE ALLOWANCE_RESET_HOUR (Some now)
           (Some last_updated) =
           Some (DAILY_ALLOWANCE + (ALLOWANCE_RESET_HOUR - HourFromTime now)) \<and>
         DAILY_ALLOWANCE < DAILY_ALLOWANCE + (ALLOWANCE_RESET_HOUR - HourFromTime now)"
  using assms(3-9) calculateDailyAllowance_valid [OF assms(1,2,4)] by simp

theorem calculateDailyAllowance_before_reset_hour_witness:
  "calculateDailyAllowance 10 8 (Some 1738465200000) (Some 1738454400000) = Some 15 \<and>
   (10::int) < 10 + (8 - 3)"
  using calculateDailyAllowance_before_reset_hour [of 8 10 1738454400000 1738465200000]
  by (simp add: validTime_samples calendar_feb2_3h calendar_feb2_0h maxTime_def)

lemma calculateDailyAllowance_bounds:
  assumes "0 \<le> h" "h \<le> 23" "0 \<le> A"
  shows "\<exists>r. calculateDailyAllowance A h (Some now) last_updated = Some r \<and>
           0 \<le> r \<and> r \<le> A + h"
  using HourFromTime_range [of now] assms
  unfolding calculateDailyAllowance_def Let_def
  by (auto simp add: getUTCHours_def)

lemma calculateDailyAllowance_invalid_lastUpdated:
  "calculateDailyAllowance A h now None = Some A"
  by (simp add: calculateDailyAllowance_def new_Date_def setUTCHours_def getUTCDate_def
      strict_neq_def split: option.splits)

section \<open>Properties of Numbers and parseInt\<close>

lemma bitLength_2_53: "bitLength 9007199254740992 = 54"
  by code_simp

lemma toNumber_exact:
  assumes "\<bar>x\<bar> \<le> 2 ^ 53"
  shows "toNumber x = Finite x"
proof (cases "\<bar>x\<bar> < 2 ^ 53")
  case True
  then show ?thesis
    by (simp add: toNumber_def)
next
  case False
  with assms have "x = 9007199254740992 \<or> x = - 9007199254740992"
    by auto
  then show ?thesis
    by (auto simp add: toNumber_def bitLength_2_53)
qed

text \<open>
  From \<open>2^53\<close> on, \<open>toNumber\<close> gives a multiple \<open>q * 2^e\<close> with a significand \<open>q\<close> of
  53 bits that is within half of \<open>2^e\<close> of the integer, with an even significand when the
  integer lies half way, or an infinity when that multiple is \<open>2^1024\<close> or more.
\<close>

lemma bitLength_bounds:
  "0 < n \<Longrightarrow> 2 ^ (bitLength n - 1) \<le> n \<and> n < 2 ^ bitLength n"
proof (induction n rule: bitLength.induct)
  case (1 n)
  show ?case
  proof (cases "n div 2 = 0")
    case True
    with "1.prems" have "n = 1"
      by (simp add: div_eq_0_iff zdiv_eq_0_iff)
    then show ?thesis
      by (simp add: bitLength.simps [of 1] bitLength.simps [of 0])
  next
    case False
    with "1.prems" have pos: "0 < n div 2"
      by (simp add: pos_imp_zdiv_pos_iff)
    define k where "k = bitLength (n div 2)"
    have ih: "2 ^ (k - 1) \<le> n div 2" "n div 2 < 2 ^ k"
      using "1.IH" "1.prems" pos by (simp_all add: k_def)
    have k: "0 < k"
      using pos by (simp add: k_def bitLength.simps [of "n div 2"])
    then have p: "(2::int) ^ k = 2 * 2 ^ (k - 1)"
      by (cases k) simp_all
    have b: "bitLength n = Suc k"
      using "1.prems" by (simp add: bitLength.simps [of n] k_def)
    have "2 * (n div 2) \<le> n" "n < 2 * (n div 2) + 2"
      by simp_all
    with ih p show ?thesis
      by (simp add: b)
  qed
qed


lemma toNumber_nearest:
  assumes "2 ^ 53 \<le> \<bar>x\<bar>"
  shows "\<exists>q e. 2 ^ 52 \<le> q \<and> q \<le> 2 ^ 53 \<and>
           2 * \<bar>q * 2 ^ e - \<bar>x\<bar>\<bar> \<le> 2 ^ e \<and>
           (2 * \<bar>q * 2 ^ e - \<bar>x\<bar>\<bar> = 2 ^ e \<longrightarrow> even q) \<and>
           toNumber x =
             (if 2 ^ 1024 \<le> q * 2 ^ e then (if x < 0 then NegInfinity else PosInfinity)
              else Finite (sgn x * (q * 2 ^ e)))"
proof -
  define m where "m = \<bar>x\<bar>"
  define b where "b = bitLength m"
  define e where "e = b - 53"
  define P :: int where "P = 2 ^ e"
  define h :: int where "h = 2 ^ (e - 1)"
  define q0 where "q0 = m div P"
  define r where "r = m mod P"
  define q where "q = (if h < r \<or> (r = h \<and> odd q0) then q0 + 1 else q0)"
  have m: "2 ^ 53 \<le> m"
    using assms by (simp add: m_def)
  then have "0 < m"
    by (rule less_le_trans [rotated]) simp
  then have bb: "2 ^ (b - 1) \<le> m" "m < 2 ^ b"
    using bitLength_bounds [of m] by (simp_all add: b_def)
  have "(2::int) ^ 53 < 2 ^ b"
    using m bb(2) by (rule le_less_trans)
  then have b: "53 < b"
    using power_less_imp_less_exp [of "2::int" 53 b] by simp
  then have e: "0 < e" "b = e + 53" "b - 1 = e + 52"
    by (simp_all add: e_def)
  obtain e' where e': "e = Suc e'"
    using e(1) by (cases e) simp_all
  have P: "0 < P" "P = 2 * h"
    by (simp_all add: P_def h_def e')
  have split: "m = q0 * P + r" "0 \<le> r" "r < P"
    using P(1) by (simp_all add: q0_def r_def)
  have "(2::int) ^ (e + 52) = 2 ^ 52 * P" "(2::int) ^ (e + 53) = 2 ^ 53 * P"
    by (simp_all only: power_add P_def mult.commute)
  moreover have "2 ^ (e + 52) \<le> m" "m < 2 ^ (e + 53)"
    using bb(1) [unfolded e(3)] bb(2) [unfolded e(2)] by this+
  ultimately have mP: "2 ^ 52 * P \<le> m" "m < 2 ^ 53 * P"
    by simp_all
  have P0: "0 \<le> P"
    using P(1) by simp
  have q0: "2 ^ 52 \<le> q0" "q0 < 2 ^ 53"
  proof -
    show "2 ^ 52 \<le> q0"
    proof (rule ccontr)
      assume "\<not> 2 ^ 52 \<le> q0"
      then have "q0 + 1 \<le> 2 ^ 52"
        by simp
      then have "(q0 + 1) * P \<le> 2 ^ 52 * P"
        using P0 by (rule mult_right_mono)
      then have "q0 * P + P \<le> 2 ^ 52 * P"
        by (simp only: distrib_right mult_1)
      with split mP(1) show False
        by linarith
    qed
    show "q0 < 2 ^ 53"
    proof (rule ccontr)
      assume "\<not> q0 < 2 ^ 53"
      then have "2 ^ 53 \<le> q0"
        by simp
      then have "2 ^ 53 * P \<le> q0 * P"
        using P0 by (rule mult_right_mono)
      with split mP(2) show False
        by linarith
    qed
  qed
  have q: "2 ^ 52 \<le> q" "q \<le> 2 ^ 53"
    using q0 by (simp_all add: q_def)
  have d: "q * P - m = (if h < r \<or> (r = h \<and> odd q0) then P - r else - r)"
    by (simp add: q_def split(1) distrib_right)
  have near: "2 * \<bar>q * P - m\<bar> \<le> P"
    unfolding d using split(2,3) P(2) by (cases "h < r \<or> (r = h \<and> odd q0)") auto
  have tie: "2 * \<bar>q * P - m\<bar> = P \<longrightarrow> even q"
  proof
    assume "2 * \<bar>q * P - m\<bar> = P"
    then have "r = h"
      unfolding d using split(2,3) P(2) by (cases "h < r \<or> (r = h \<and> odd q0)") auto
    then show "even q"
      by (simp add: q_def)
  qed
  have "\<not> m < 2 ^ 53"
    using m by simp
  then have "toNumber x =
      (if 2 ^ 1024 \<le> q * P then (if x < 0 then NegInfinity else PosInfinity)
       else Finite (sgn x * (q * P)))"
    unfolding toNumber_def Let_def m_def [symmetric] b_def [symmetric] e_def [symmetric]
      P_def [symmetric] h_def [symmetric] q0_def [symmetric] r_def [symmetric]
      q_def [symmetric]
    by simp
  with q near tie show ?thesis
    unfolding P_def m_def by blast
qed

lemma toNumber_samples:
  "toNumber 9007199254740993 = Finite 9007199254740992"
  "toNumber 9007199254740995 = Finite 9007199254740996"
  "toNumber (10 ^ 23) = Finite 99999999999999991611392"
  "toNumber (10 ^ 400) = PosInfinity"
  by code_simp+

lemma parseInt_empty: "parseInt [] = None"
  by (simp add: parseInt_def parseDigits_def)

lemma isRadixDigit_10_iff:
  "isRadixDigit 10 c \<longleftrightarrow> 48 \<le> (of_char c :: nat) \<and> (of_char c :: nat) \<le> 57"
  by (auto simp add: isRadixDigit_def digitValue_def Let_def)

lemma decimal_digit_hex: "isRadixDigit 10 c \<Longrightarrow> isRadixDigit 16 c"
  by (auto simp add: isRadixDigit_def split: option.splits)

lemma hex_digit_plain:
  assumes "isRadixDigit 16 c"
  shows "\<not> isStrWhiteSpaceChar c" and "c \<noteq> CHR ''+''" and "c \<noteq> CHR ''-''"
  using assms
  by (auto simp add: isRadixDigit_def digitValue_def isStrWhiteSpaceChar_def Let_def
      split: if_splits)

lemma takeWhile_digits:
  assumes "\<forall>c\<in>set ds. isRadixDigit R c" and "rest = [] \<or> \<not> isRadixDigit R (hd rest)"
  shows "takeWhile (isRadixDigit R) (ds @ rest) = ds"
proof -
  have "takeWhile (isRadixDigit R) rest = []"
    using assms(2) by (cases rest) auto
  with assms(1) show ?thesis
    by (simp add: takeWhile_append2)
qed

lemma parseDigits_decimal:
  assumes "ds \<noteq> []" and "\<forall>c\<in>set ds. isRadixDigit 10 c"
    and "rest = [] \<or> \<not> isRadixDigit 10 (hd rest)"
    and "take 2 (ds @ rest) \<noteq> ''0x''" and "take 2 (ds @ rest) \<noteq> ''0X''"
  shows "parseDigits sign (ds @ rest) = Some (toNumber (sign * radixValue 10 ds))"
proof -
  have np: "(take 2 (ds @ rest) = ''0x'' \<or> take 2 (ds @ rest) = ''0X'') = False"
    using assms(4,5) by blast
  show ?thesis
    unfolding parseDigits_def Let_def np if_False takeWhile_digits [OF assms(2,3)]
    using assms(1) by simp
qed

lemma parseDigits_prefix:
  assumes "p = ''0x'' \<or> p = ''0X''"
  shows "parseDigits sign (p @ S) =
           (let Z = takeWhile (isRadixDigit 16) S
            in if Z = [] then None else Some (toNumber (sign * radixValue 16 Z)))"
proof -
  have t: "take 2 (p @ S) = p" "drop 2 (p @ S) = S"
    using assms by auto
  have yes: "(p = ''0x'' \<or> p = ''0X'') = True"
    using assms by simp
  show ?thesis
    unfolding parseDigits_def Let_def t yes if_True by simp
qed

lemma parseDigits_hex:
  assumes "p = ''0x'' \<or> p = ''0X''"
    and "hs \<noteq> []" and "\<forall>c\<in>set hs. isRadixDigit 16 c"
    and "rest = [] \<or> \<not> isRadixDigit 16 (hd rest)"
  shows "parseDigits sign (p @ hs @ rest) = Some (toNumber (sign * radixValue 16 hs))"
  unfolding parseDigits_prefix [OF assms(1)] Let_def takeWhile_digits [OF assms(3,4)]
  using assms(2) by simp

lemma parseDigits_hex_none:
  assumes "p = ''0x'' \<or> p = ''0X''"
    and "rest = [] \<or> \<not> isRadixDigit 16 (hd rest)"
  shows "parseDigits sign (p @ rest) = None"
proof -
  have "takeWhile (isRadixDigit 16) rest = []"
    using assms(2) by (cases rest) auto
  then show ?thesis
    unfolding parseDigits_prefix [OF assms(1)] Let_def by simp
qed

lemma parseInt_sign:
  assumes "sg = [] \<or> sg = ''+'' \<or> sg = ''-''"
    and "body = c # cs" and "isRadixDigit 16 c"
  shows "parseInt (sg @ body) = parseDigits (if sg = ''-'' then - 1 else 1) body"
proof (cases "sg = []")
  case True
  have ws: "dropWhile isStrWhiteSpaceChar body = body"
    using hex_digit_plain(1) [OF assms(3)] assms(2) by simp
  have t: "(take 1 body = ''-'') = False" "(take 1 body = ''+'') = False"
    using hex_digit_plain(2,3) [OF assms(3)] assms(2) by simp_all
  show ?thesis
    unfolding True append_Nil parseInt_def ws Let_def t by simp
next
  case False
  then have sg: "sg = ''+'' \<or> sg = ''-''"
    using assms(1) by simp
  have ws: "dropWhile isStrWhiteSpaceChar (sg @ body) = sg @ body"
    using sg by (auto simp add: isStrWhiteSpaceChar_def)
  have t: "take 1 (sg @ body) = sg" "drop 1 (sg @ body) = body"
    using sg by auto
  have yes: "(sg = ''+'' \<or> sg = ''-'') = True"
    using sg by simp
  show ?thesis
    unfolding parseInt_def ws Let_def t yes if_True by simp
qed

lemma parseInt_samples:
  "parseInt ''abc'' = None" "parseInt ''12'' = Some (Finite 12)"
  "parseInt ''12abc'' = Some (Finite 12)" "parseInt ''12.7'' = Some (Finite 12)"
  "parseInt ''0xZ'' = None" "parseInt ''0x1f'' = Some (Finite 31)"
  "parseInt ''-42'' = Some (Finite (- 42))"
  by code_simp+

section \<open>Properties of the search handler\<close>

text \<open>
  Claim C5. From every state, a search whose input is not empty and does not parse as an
  integer (\<open>parseInt\<close> gives \<open>NaN\<close>, as for \<open>abc\<close>) issues no request, sets the error
  slice to \<open>Invalid FID\<close> and clears the search result.
\<close>

theorem handleSearch_invalid_input:
  assumes "searchFid s \<noteq> []" and "parseInt (searchFid s) = None"
  shows "handleSearch net s = (s\<lparr>error := ''Invalid FID'', searchResults := None\<rparr>, [])"
  using assms by (simp add: handleSearch_def handleSearch_catch_def message_or_def)

theorem handleSearch_invalid_input_witness:
  "handleSearch net_up (signed_in\<lparr>searchFid := ''abc'', searchResults := Some sample_stats\<rparr>) =
     (signed_in\<lparr>searchFid := ''abc'', searchResults := None, error := ''Invalid FID''\<rparr>, [])"
  using handleSearch_invalid_input
    [of "signed_in\<lparr>searchFid := ''abc'', searchResults := Some sample_stats\<rparr>" net_up]
  by (simp add: parseInt_samples)

text \<open>
  Claim C6. From every state, a search with the empty input issues no request and leaves
  the whole state, the search result and the error slice included, as it was.
\<close>

theorem handleSearch_empty_input:
  assumes "searchFid s = []"
  shows "handleSearch net s = (s, [])"
  using assms by (simp add: handleSearch_def)

theorem handleSearch_empty_input_witness:
  "handleSearch net_up (signed_in\<lparr>searchResults := Some sample_stats, error := ''Invalid FID''\<rparr>) =
     (signed_in\<lparr>searchResults := Some sample_stats, error := ''Invalid FID''\<rparr>, [])"
  using handleSearch_empty_input
    [of "signed_in\<lparr>searchResults := Some sample_stats, error := ''Invalid FID''\<rparr>" net_up]
  by (simp add: signed_in_def initial_state_def)

text \<open>
  Claim C7. A search whose input parses as the integer \<open>n\<close> issues exactly one request,
  for the stats of \<open>n\<close>. When that fetch succeeds the search result becomes the stats
  returned and the error slice is emptied; when it fails the error slice becomes the
  message of the failure (\<open>Failed to search\<close> for a thrown value that is no
  \<open>Error\<close>) and the search result is cleared.
\<close>

theorem handleSearch_integer_input:
  assumes "parseInt (searchFid s) = Some n"
  shows "snd (handleSearch net s) = [StatsRequest n] \<and>
         (\<forall>results. fetchNutStats net n = Inr results \<longrightarrow>
            fst (handleSearch net s) = s\<lparr>searchResults := Some results, error := []\<rparr>) \<and>
         (\<forall>message. fetchNutStats net n = Inl (Error message) \<longrightarrow>
            fst (handleSearch net s) = s\<lparr>error := message, searchResults := None\<rparr>) \<and>
         (fetchNutStats net n = Inl NonError \<longrightarrow>
            fst (handleSearch net s) = s\<lparr>error := ''Failed to search'', searchResults := None\<rparr>)"
proof -
  have "searchFid s \<noteq> []"
    using assms parseInt_empty by auto
  with assms show ?thesis
    by (auto simp add: handleSearch_def handleSearch_catch_def message_or_def
        split: sum.splits)
qed

lemma fetchNutStats_samples:
  "fetchNutStats net_up n = Inr (sample_stats\<lparr>fid := n\<rparr>)"
  "fetchNutStats net_stats_down n = Inl (Error ''Failed to fetch stats'')"
  "fetchNutStats net_board_down n = Inr (sample_stats\<lparr>fid := n\<rparr>)"
  by (simp_all add: fetchNutStats_def net_up_def net_stats_down_def net_board_down_def)

lemma fetchLeaderboard_samples:
  "fetchLeaderboard net_up = Inr sample_board"
  "fetchLeaderboard net_stats_down = Inr sample_board"
  "fetchLeaderboard net_board_down = Inl (Error ''Failed to fetch'')"
  "fetchLeaderboard net_board_refused = Inl (Error ''Failed to fetch leaderboard'')"
  by (simp_all add: fetchLeaderboard_def net_up_def net_stats_down_def net_board_down_def
      net_board_refused_def)

theorem handleSearch_integer_input_witness:
  "handleSearch net_up (signed_in\<lparr>searchFid := ''12'', error := ''Invalid FID''\<rparr>) =
     (signed_in\<lparr>searchFid := ''12'', searchResults := Some (sample_stats\<lparr>fid := Finite 12\<rparr>),
        error := []\<rparr>,
      [StatsRequest (Finite 12)]) \<and>
   handleSearch net_stats_down (signed_in\<lparr>searchFid := ''12'', searchResults := Some sample_stats\<rparr>) =
     (signed_in\<lparr>searchFid := ''12'', searchResults := None, error := ''Failed to fetch stats''\<rparr>,
      [StatsRequest (Finite 12)])"
  using handleSearch_integer_input
      [of "signed_in\<lparr>searchFid := ''12'', error := ''Invalid FID''\<rparr>" "Finite 12" net_up]
    handleSearch_integer_input
      [of "signed_in\<lparr>searchFid := ''12'', searchResults := Some sample_stats\<rparr>" "Finite 12"
        net_stats_down]
  by (simp add: parseInt_samples fetchNutStats_samples prod_eq_iff)

lemma handleSearch_parsed:
  assumes "parseInt (searchFid s) = Some n"
  shows "snd (handleSearch net s) = [StatsRequest n]"
proof -
  have "searchFid s \<noteq> []"
    using assms parseInt_empty by auto
  with assms show ?thesis
    by (simp add: handleSearch_def split: sum.splits)
qed

text \<open>
  Claim C10 as stated fails for an input that starts with \<open>0x\<close>: the leading \<open>0\<close> of
  \<open>0xZ\<close> is an integer followed by characters that are not numeric, yet \<open>parseInt\<close>
  takes \<open>0x\<close> for the prefix of a hexadecimal numeral, finds no digit after it, and
  the search ends with \<open>Invalid FID\<close> and no request.
\<close>

theorem handleSearch_hex_prefix_rejected:
  "handleSearch net_up (initial_state\<lparr>searchFid := ''0xZ''\<rparr>) =
     (initial_state\<lparr>searchFid := ''0xZ'', error := ''Invalid FID''\<rparr>, [])"
  by (simp add: handleSearch_def handleSearch_catch_def message_or_def parseInt_samples
      initial_state_def)

text \<open>
  Claim C10, amended. Take an input that is an optional sign and a body.

  When the body is one or more decimal digits and a rest that does not start with a
  decimal digit, and does not start with \<open>0x\<close> or \<open>0X\<close>, the input parses as a Number
  and the search issues the stats request for that Number: the trailing characters
  raise no \<open>Invalid FID\<close>. The Number is the integer the sign and the digits denote
  when that is at most \<open>2^53\<close> in absolute value; for at most 20 digits it is the Number
  nearest to that integer (an infinity from \<open>2^1024\<close> on).

  When the body is \<open>0x\<close> or \<open>0X\<close>, one or more hexadecimal digits and a rest that does
  not start with a hexadecimal digit, the request is for the Number of the sign and the
  hexadecimal digits. When no hexadecimal digit follows the prefix, the search ends with
  \<open>Invalid FID\<close> and no request.
\<close>

theorem handleSearch_leading_integer:
  assumes "searchFid s = sg @ body" and "sg = [] \<or> sg = ''+'' \<or> sg = ''-''"
  shows "(\<forall>ds rest.
            body = ds @ rest \<and> ds \<noteq> [] \<and> (\<forall>c\<in>set ds. isRadixDigit 10 c) \<and>
            (rest = [] \<or> \<not> isRadixDigit 10 (hd rest)) \<and>
            take 2 body \<noteq> ''0x'' \<and> take 2 body \<noteq> ''0X'' \<longrightarrow>
            (\<exists>n. parseInt (searchFid s) = Some n \<and>
                 snd (handleSearch net s) = [StatsRequest n] \<and>
                 (\<bar>radixValue 10 ds\<bar> \<le> 2 ^ 53 \<longrightarrow>
                    n = Finite ((if sg = ''-'' then - 1 else 1) * radixValue 10 ds)) \<and>
                 (length ds \<le> 20 \<longrightarrow>
                    n = toNumber ((if sg = ''-'' then - 1 else 1) * radixValue 10 ds)))) \<and>
         (\<forall>p hs rest.
            body = p @ hs @ rest \<and> (p = ''0x'' \<or> p = ''0X'') \<and> hs \<noteq> [] \<and>
            (\<forall>c\<in>set hs. isRadixDigit 16 c) \<and>
            (rest = [] \<or> \<not> isRadixDigit 16 (hd rest)) \<longrightarrow>
            parseInt (searchFid s) =
              Some (toNumber ((if sg = ''-'' then - 1 else 1) * radixValue 16 hs)) \<and>
            snd (handleSearch net s) =
              [StatsRequest (toNumber ((if sg = ''-'' then - 1 else 1) * radixValue 16 hs))]) \<and>
         (\<forall>p rest.
            body = p @ rest \<and> (p = ''0x'' \<or> p = ''0X'') \<and>
            (rest = [] \<or> \<not> isRadixDigit 16 (hd rest)) \<longrightarrow>
            handleSearch net s =
              (s\<lparr>error := ''Invalid FID'', searchResults := None\<rparr>, []))"
proof (intro conjI allI impI)
  let ?sign = "if sg = ''-'' then - 1 else 1 :: int"
  fix ds rest
  assume a: "body = ds @ rest \<and> ds \<noteq> [] \<and> (\<forall>c\<in>set ds. isRadixDigit 10 c) \<and>
    (rest = [] \<or> \<not> isRadixDigit 10 (hd rest)) \<and>
    take 2 body \<noteq> ''0x'' \<and> take 2 body \<noteq> ''0X''"
  then obtain c cs where ds: "ds = c # cs"
    by (cases ds) auto
  then have "body = c # (cs @ rest)" "isRadixDigit 16 c"
    using a decimal_digit_hex by auto
  then have "parseInt (searchFid s) = parseDigits ?sign (ds @ rest)"
    using parseInt_sign [OF assms(2)] assms(1) a by simp
  also have "\<dots> = Some (toNumber (?sign * radixValue 10 ds))"
    using a by (intro parseDigits_decimal) auto
  finally have p: "parseInt (searchFid s) = Some (toNumber (?sign * radixValue 10 ds))" .
  have "\<bar>radixValue 10 ds\<bar> \<le> 2 ^ 53 \<longrightarrow>
      toNumber (?sign * radixValue 10 ds) = Finite (?sign * radixValue 10 ds)"
    by (auto intro!: toNumber_exact simp add: abs_mult)
  with p handleSearch_parsed [OF p, of net]
  show "\<exists>n. parseInt (searchFid s) = Some n \<and>
      snd (handleSearch net s) = [StatsRequest n] \<and>
      (\<bar>radixValue 10 ds\<bar> \<le> 2 ^ 53 \<longrightarrow> n = Finite (?sign * radixValue 10 ds)) \<and>
      (length ds \<le> 20 \<longrightarrow> n = toNumber (?sign * radixValue 10 ds))"
    by blast
next
  let ?sign = "if sg = ''-'' then - 1 else 1 :: int"
  fix p hs rest
  assume a: "body = p @ hs @ rest \<and> (p = ''0x'' \<or> p = ''0X'') \<and> hs \<noteq> [] \<and>
    (\<forall>c\<in>set hs. isRadixDigit 16 c) \<and> (rest = [] \<or> \<not> isRadixDigit 16 (hd rest))"
  have z: "isRadixDigit 16 CHR ''0''"
    by (simp add: isRadixDigit_def digitValue_def)
  from a obtain cs where "body = CHR ''0'' # cs"
    by auto
  then have "parseInt (searchFid s) = parseDigits ?sign (p @ hs @ rest)"
    using parseInt_sign [OF assms(2) _ z] assms(1) a by simp
  also have "\<dots> = Some (toNumber (?sign * radixValue 16 hs))"
    using a by (intro parseDigits_hex) auto
  finally have p: "parseInt (searchFid s) = Some (toNumber (?sign * radixValue 16 hs))" .
  then show "parseInt (searchFid s) = Some (toNumber (?sign * radixValue 16 hs))" .
  from p show "snd (handleSearch net s) = [StatsRequest (toNumber (?sign * radixValue 16 hs))]"
    by (rule handleSearch_parsed)
next
  let ?sign = "if sg = ''-'' then - 1 else 1 :: int"
  fix p rest
  assume a: "body = p @ rest \<and> (p = ''0x'' \<or> p = ''0X'') \<and>
    (rest = [] \<or> \<not> isRadixDigit 16 (hd rest))"
  have z: "isRadixDigit 16 CHR ''0''"
    by (simp add: isRadixDigit_def digitValue_def)
  from a obtain cs where b: "body = CHR ''0'' # cs"
    by auto
  then have "parseInt (searchFid s) = parseDigits ?sign (p @ rest)"
    using parseInt_sign [OF assms(2) _ z] assms(1) a by simp
  also have "\<dots> = None"
    using a by (intro parseDigits_hex_none) auto
  finally have "parseInt (searchFid s) = None" .
  moreover have "searchFid s \<noteq> []"
    using assms(1) b by simp
  ultimately show "handleSearch net s =
      (s\<lparr>error := ''Invalid FID'', searchResults := None\<rparr>, [])"
    by (simp add: handleSearch_def handleSearch_catch_def message_or_def)
qed

lemma radixValue_samples:
  "radixValue 10 ''12'' = 12" "radixValue 10 ''9007199254740993'' = 9007199254740993"
  "radixValue 16 ''1f'' = 31"
  by code_simp+

lemma digit_samples:
  "\<forall>c\<in>set ''12''. isRadixDigit 10 c" "\<forall>c\<in>set ''9007199254740993''. isRadixDigit 10 c"
  "\<forall>c\<in>set ''1f''. isRadixDigit 16 c"
  "\<not> isRadixDigit 10 CHR ''a''" "\<not> isRadixDigit 10 CHR ''.''"
  "\<not> isRadixDigit 16 CHR ''Z''"
  by (simp_all add: isRadixDigit_def digitValue_def)

theorem handleSearch_leading_integer_witness:
  "snd (handleSearch net_up (initial_state\<lparr>searchFid := ''12abc''\<rparr>)) =
     [StatsRequest (Finite 12)] \<and>
   snd (handleSearch net_up (initial_state\<lparr>searchFid := ''-12.7''\<rparr>)) =
     [StatsRequest (Finite (- 12))] \<and>
   snd (handleSearch net_up (initial_state\<lparr>searchFid := ''9007199254740993''\<rparr>)) =
     [StatsRequest (Finite 9007199254740992)] \<and>
   snd (handleSearch net_up (initial_state\<lparr>searchFid := ''0x1f''\<rparr>)) =
     [StatsRequest (Finite 31)] \<and>
   handleSearch net_up (initial_state\<lparr>searchFid := ''-0XZ''\<rparr>) =
     (initial_state\<lparr>searchFid := ''-0XZ'', error := ''Invalid FID'', searchResults := None\<rparr>, [])"
proof -
  have "\<exists>n. parseInt (searchFid (initial_state\<lparr>searchFid := ''12abc''\<rparr>)) = Some n \<and>
      snd (handleSearch net_up (initial_state\<lparr>searchFid := ''12abc''\<rparr>)) = [StatsRequest n] \<and>
      (\<bar>radixValue 10 ''12''\<bar> \<le> 2 ^ 53 \<longrightarrow>
         n = Finite ((if [] = ''-'' then - 1 else 1) * radixValue 10 ''12'')) \<and>
      (length ''12'' \<le> 20 \<longrightarrow>
         n = toNumber ((if [] = ''-'' then - 1 else 1) * radixValue 10 ''12''))"
    by (rule handleSearch_leading_integer
        [of "initial_state\<lparr>searchFid := ''12abc''\<rparr>" "[]" "''12abc''" net_up,
          THEN conjunct1, rule_format, of "''12''" "''abc''"])
      (simp_all add: digit_samples)
  then have w1: "snd (handleSearch net_up (initial_state\<lparr>searchFid := ''12abc''\<rparr>)) =
      [StatsRequest (Finite 12)]"
    by (auto simp add: radixValue_samples)
  have "\<exists>n. parseInt (searchFid (initial_state\<lparr>searchFid := ''-12.7''\<rparr>)) = Some n \<and>
      snd (handleSearch net_up (initial_state\<lparr>searchFid := ''-12.7''\<rparr>)) = [StatsRequest n] \<and>
      (\<bar>radixValue 10 ''12''\<bar> \<le> 2 ^ 53 \<longrightarrow>
         n = Finite ((if ''-'' = ''-'' then - 1 else 1) * radixValue 10 ''12'')) \<and>
      (length ''12'' \<le> 20 \<longrightarrow>
         n = toNumber ((if ''-'' = ''-'' then - 1 else 1) * radixValue 10 ''12''))"
    by (rule handleSearch_leading_integer
        [of "initial_state\<lparr>searchFid := ''-12.7''\<rparr>" "''-''" "''12.7''" net_up,
          THEN conjunct1, rule_format, of "''12''" "''.7''"])
      (simp_all add: digit_samples)
  then have w2: "snd (handleSearch net_up (initial_state\<lparr>searchFid := ''-12.7''\<rparr>)) =
      [StatsRequest (Finite (- 12))]"
    by (auto simp add: radixValue_samples)
  have "\<exists>n. parseInt (searchFid (initial_state\<lparr>searchFid := ''9007199254740993''\<rparr>)) = Some n \<and>
      snd (handleSearch net_up (initial_state\<lparr>searchFid := ''9007199254740993''\<rparr>)) =
        [StatsRequest n] \<and>
      (\<bar>radixValue 10 ''9007199254740993''\<bar> \<le> 2 ^ 53 \<longrightarrow>
         n = Finite ((if [] = ''-'' then - 1 else 1) * radixValue 10 ''9007199254740993'')) \<and>
      (length ''9007199254740993'' \<le> 20 \<longrightarrow>
         n = toNumber ((if [] = ''-'' then - 1 else 1) * radixValue 10 ''9007199254740993''))"
    by (rule handleSearch_leading_integer
        [of "initial_state\<lparr>searchFid := ''9007199254740993''\<rparr>" "[]" "''9007199254740993''"
          net_up, THEN conjunct1, rule_format, of "''9007199254740993''" "[]"])
      (simp_all add: digit_samples)
  then have w3: "snd (handleSearch net_up (initial_state\<lparr>searchFid := ''9007199254740993''\<rparr>)) =
      [StatsRequest (Finite 9007199254740992)]"
    by (auto simp add: radixValue_samples toNumber_samples)
  have "parseInt (searchFid (initial_state\<lparr>searchFid := ''0x1f''\<rparr>)) =
        Some (toNumber ((if [] = ''-'' then - 1 else 1) * radixValue 16 ''1f'')) \<and>
      snd (handleSearch net_up (initial_state\<lparr>searchFid := ''0x1f''\<rparr>)) =
        [StatsRequest (toNumber ((if [] = ''-'' then - 1 else 1) * radixValue 16 ''1f''))]"
    by (rule handleSearch_leading_integer
        [of "initial_state\<lparr>searchFid := ''0x1f''\<rparr>" "[]" "''0x1f''" net_up,
          THEN conjunct2, THEN conjunct1, rule_format, of "''0x''" "''1f''" "[]"])
      (simp_all add: digit_samples)
  then have w4: "snd (handleSearch net_up (initial_state\<lparr>searchFid := ''0x1f''\<rparr>)) =
      [StatsRequest (Finite 31)]"
    by (simp add: radixValue_samples toNumber_exact)
  have w5: "handleSearch net_up (initial_state\<lparr>searchFid := ''-0XZ''\<rparr>) =
      (initial_state\<lparr>searchFid := ''-0XZ'', error := ''Invalid FID'', searchResults := None\<rparr>, [])"
    by (rule handleSearch_leading_integer
        [of "initial_state\<lparr>searchFid := ''-0XZ''\<rparr>" "''-''" "''0XZ''" net_up,
          THEN conjunct2, THEN conjunct2, rule_format, of "''0X''" "''Z''"])
      (simp_all add: digit_samples)
  from w1 w2 w3 w4 w5 show ?thesis
    by blast
qed

section \<open>Properties of the refresh cycle\<close>

lemma ownFid_signed_in: "ownFid (signed_in\<lparr>error := e\<rparr>) = Some (Finite 7)" "ownFid signed_in = Some (Finite 7)"
  by (simp_all add: ownFid_def signed_in_def initial_state_def)

lemma ownFid_initial_state: "ownFid initial_state = None"
  by (simp add: ownFid_def initial_state_def)

text \<open>
  Claim C3 as stated fails: with an identity present and the frame added, a stats fetch
  that fails ends the cycle, and the leaderboard is not requested.
\<close>

theorem loadInitialData_stats_failure_skips_leaderboard:
  "ownFid signed_in = Some (Finite 7) \<and>
   loadInitialData net_stats_down signed_in =
     (signed_in\<lparr>error := ''Failed to fetch stats''\<rparr>, [StatsRequest (Finite 7)]) \<and>
   LeaderboardRequest \<notin> set (snd (loadInitialData net_stats_down signed_in))"
  by (simp add: loadInitialData_def loadInitialData_catch_def message_or_def
      ownFid_signed_in fetchNutStats_samples)

text \<open>
  Claim C3, amended. The two fetches of a cycle run in sequence under one handler. The
  leaderboard is requested exactly when the stats fetch is skipped or succeeds. A stats
  fetch that fails sets the error slice and changes nothing else, so the leaderboard
  slice keeps its data; a leaderboard fetch that fails sets the error slice and leaves
  the leaderboard slice as it was, and the stats applied earlier in the cycle stay.
\<close>

theorem loadInitialData_sequential:
  "(LeaderboardRequest \<in> set (snd (loadInitialData net s)) \<longleftrightarrow>
      (\<forall>n. ownFid s = Some n \<longrightarrow> (\<exists>stats. fetchNutStats net n = Inr stats))) \<and>
   (\<forall>n err. ownFid s = Some n \<and> fetchNutStats net n = Inl err \<longrightarrow>
      loadInitialData net s =
        (s\<lparr>error := message_or ''Failed to load data'' err\<rparr>, [StatsRequest n])) \<and>
   (\<forall>n stats err.
      ownFid s = Some n \<and> fetchNutStats net n = Inr stats \<and> fetchLeaderboard net = Inl err \<longrightarrow>
      loadInitialData net s =
        (s\<lparr>userStats := Some stats, error := message_or ''Failed to load data'' err\<rparr>,
         [StatsRequest n, LeaderboardRequest])) \<and>
   (\<forall>err. ownFid s = None \<and> fetchLeaderboard net = Inl err \<longrightarrow>
      loadInitialData net s =
        (s\<lparr>error := message_or ''Failed to load data'' err\<rparr>, [LeaderboardRequest]))"
  by (auto simp add: loadInitialData_def loadInitialData_catch_def loadLeaderboard_def
      split: option.splits sum.splits)

theorem loadInitialData_sequential_witness:
  "LeaderboardRequest \<notin> set (snd (loadInitialData net_stats_down signed_in)) \<and>
   loadInitialData net_stats_down signed_in =
     (signed_in\<lparr>error := ''Failed to fetch stats''\<rparr>, [StatsRequest (Finite 7)]) \<and>
   loadInitialData net_board_down signed_in =
     (signed_in\<lparr>userStats := Some (sample_stats\<lparr>fid := Finite 7\<rparr>), error := ''Failed to fetch''\<rparr>,
      [StatsRequest (Finite 7), LeaderboardRequest]) \<and>
   loadInitialData net_board_down initial_state =
     (initial_state\<lparr>error := ''Failed to fetch''\<rparr>, [LeaderboardRequest])"
  using loadInitialData_sequential [of net_stats_down signed_in]
    loadInitialData_sequential [of net_board_down signed_in]
    loadInitialData_sequential [of net_board_down initial_state]
  by (simp add: ownFid_signed_in ownFid_initial_state fetchNutStats_samples
      fetchLeaderboard_samples message_or_def)

text \<open>
  Claim C4. A refresh cycle whose fetches all succeed does not clear the error slice: the
  message set earlier is still there after it, beside the fresh leaderboard. A successful
  search does empty it.
\<close>

theorem loadInitialData_success_keeps_error:
  assumes "fetchLeaderboard net = Inr leaderboardData"
    and "\<forall>n. ownFid s = Some n \<longrightarrow> (\<exists>stats. fetchNutStats net n = Inr stats)"
  shows "error (fst (loadInitialData net s)) = error s \<and>
         leaderboard (fst (loadInitialData net s)) = leaderboardData"
  using assms
  by (auto simp add: loadInitialData_def loadLeaderboard_def split: option.splits sum.splits)

theorem loadInitialData_success_keeps_error_witness:
  "error (fst (loadInitialData net_up (signed_in\<lparr>error := ''Failed to fetch stats''\<rparr>))) =
     ''Failed to fetch stats'' \<and>
   leaderboard (fst (loadInitialData net_up (signed_in\<lparr>error := ''Failed to fetch stats''\<rparr>))) =
     sample_board"
  using loadInitialData_success_keeps_error
    [of net_up sample_board "signed_in\<lparr>error := ''Failed to fetch stats''\<rparr>"]
  by (simp add: ownFid_signed_in fetchNutStats_samples fetchLeaderboard_samples)

text \<open>
  Claim C8. In a cycle with no context, with no actor in the context, or with the frame
  not added, no stats request is issued and the own-stats slice is left as it was, and the
  leaderboard is still fetched: the only request is the one for the leaderboard, and
  the cycle ends in the state before with the leaderboard slice replaced by the entries
  received, or, when that fetch fails (the request is rejected, the response is not ok or
  its body does not parse), with the error slice set to the failure's message and
  nothing else changed.
\<close>

theorem loadInitialData_without_identity:
  assumes "frameContext s = None \<or>
           (\<exists>c. frameContext s = Some c \<and> (actor c = None \<or> \<not> client_added c))"
  shows "snd (loadInitialData net s) = [LeaderboardRequest] \<and>
         userStats (fst (loadInitialData net s)) = userStats s \<and>
         (\<forall>entries. leaderboard_endpoint net = Inr \<lparr>ok = True, json = Inr entries\<rparr> \<longrightarrow>
            fst (loadInitialData net s) = s\<lparr>leaderboard := entries\<rparr>) \<and>
         (\<forall>body. leaderboard_endpoint net = Inr \<lparr>ok = False, json = body\<rparr> \<longrightarrow>
            fst (loadInitialData net s) = s\<lparr>error := ''Failed to fetch leaderboard''\<rparr>) \<and>
         (\<forall>err. leaderboard_endpoint net = Inl err \<or>
                leaderboard_endpoint net = Inr \<lparr>ok = True, json = Inl err\<rparr> \<longrightarrow>
            fst (loadInitialData net s) =
              s\<lparr>error := (case err of Error message \<Rightarrow> message
                            | NonError \<Rightarrow> ''Failed to load data'')\<rparr>)"
proof -
  have "ownFid s = None"
    using assms by (auto simp add: ownFid_def)
  then have "loadInitialData net s = (loadLeaderboard net s, [LeaderboardRequest])"
    by (simp add: loadInitialData_def)
  then show ?thesis
    by (auto simp add: loadLeaderboard_def loadInitialData_catch_def fetchLeaderboard_def
        message_or_def split: sum.splits thrown.splits)
qed

theorem loadInitialData_without_identity_witness:
  "loadInitialData net_up initial_state =
     (initial_state\<lparr>leaderboard := sample_board\<rparr>, [LeaderboardRequest]) \<and>
   loadInitialData net_up
     (signed_in\<lparr>frameContext := Some \<lparr>client_added = False, actor = Some \<lparr>actor_fid = Finite 7\<rparr>\<rparr>\<rparr>) =
     (signed_in\<lparr>frameContext := Some \<lparr>client_added = False, actor = Some \<lparr>actor_fid = Finite 7\<rparr>\<rparr>,
        leaderboard := sample_board\<rparr>, [LeaderboardRequest]) \<and>
   loadInitialData net_board_refused (initial_state\<lparr>leaderboard := sample_board\<rparr>) =
     (initial_state\<lparr>leaderboard := sample_board, error := ''Failed to fetch leaderboard''\<rparr>,
      [LeaderboardRequest]) \<and>
   loadInitialData net_board_down (initial_state\<lparr>leaderboard := sample_board\<rparr>) =
     (initial_state\<lparr>leaderboard := sample_board, error := ''Failed to fetch''\<rparr>,
      [LeaderboardRequest])"
  using loadInitialData_without_identity [of initial_state net_up]
    loadInitialData_without_identity
      [of "signed_in\<lparr>frameContext := Some \<lparr>client_added = False, actor = Some \<lparr>actor_fid = Finite 7\<rparr>\<rparr>\<rparr>"
        net_up]
    loadInitialData_without_identity [of "initial_state\<lparr>leaderboard := sample_board\<rparr>"
      net_board_refused]
    loadInitialData_without_identity [of "initial_state\<lparr>leaderboard := sample_board\<rparr>"
      net_board_down]
  by (simp add: initial_state_def net_up_def net_board_refused_def net_board_down_def
      prod_eq_iff)

section \<open>Properties of view switching\<close>

lemma selectView_only_view: "selectView net v s = (s\<lparr>currentView := v\<rparr>, [])"
  by (simp add: selectView_def refreshEffect_def setCurrentView_def)

lemma selectViews_only_view:
  "selectViews net vs s = (s\<lparr>currentView := last (currentView s # vs)\<rparr>, [])"
  by (induction vs arbitrary: s) (simp_all add: selectView_only_view)

text \<open>
  Claim C9. The view starts as \<open>STATS\<close>. Any sequence of view selections issues no
  request and changes the state in the current view only, which ends as the last view
  selected: own stats, leaderboard, search result and error all keep their data.
\<close>

theorem view_switching_preserves_slices:
  "currentView initial_state = STATS \<and>
   selectViews net vs s = (s\<lparr>currentView := last (currentView s # vs)\<rparr>, [])"
  by (simp add: selectViews_only_view initial_state_def)

theorem view_switching_preserves_slices_witness:
  "selectViews net_up [LEADERBOARD, SEARCH, STATS]
     (signed_in\<lparr>userStats := Some sample_stats, leaderboard := sample_board\<rparr>) =
     (signed_in\<lparr>userStats := Some sample_stats, leaderboard := sample_board\<rparr>, [])"
  using view_switching_preserves_slices
    [of net_up "[LEADERBOARD, SEARCH, STATS]"
      "signed_in\<lparr>userStats := Some sample_stats, leaderboard := sample_board\<rparr>"]
  by (simp add: signed_in_def initial_state_def)

end
